theory Spec2Isabelle
  imports Main "HOL-Library.Word" "HOL-Library.Sublist" "HOL-Library.Char_ord"
    "HOL-Library.List_Lexorder"
begin

section \<open>Data model\<close>

type_synonym byte = "8 word"

subsection \<open>The in-memory repository (pkg/repo/mem.go)\<close>

text \<open>
  \<^verbatim>\<open>MemRepo\<close> as far as the API operations touch it: the datastores, the keystore and the
  configuration are not read or written by \<^verbatim>\<open>SetAPIToken\<close> and are left out. A Go byte
  slice is a list of bytes; the nil slice and the empty slice both have length 0 and are
  both the empty list.
\<close>

record MemRepo =
  version :: nat
  jsonrpcAddress :: string
  rustfulAddress :: string
  token :: "byte list"

text \<open>
  \<^verbatim>\<open>SetAPIToken\<close> returns the error (always nil, here \<open>None\<close>) and the repository after
  the call.
\<close>

definition SetAPIToken :: "byte list \<Rightarrow> MemRepo \<Rightarrow> string option \<times> MemRepo" where
  "SetAPIToken tok mr =
     (if length (token mr) = 0 then (None, mr\<lparr>token := tok\<rparr>) else (None, mr))"

text \<open>A sequence of calls, each on the repository the previous one left.\<close>

fun SetAPIToken_calls :: "byte list list \<Rightarrow> MemRepo \<Rightarrow> MemRepo" where
  "SetAPIToken_calls [] mr = mr"
| "SetAPIToken_calls (tok # toks) mr = SetAPIToken_calls toks (snd (SetAPIToken tok mr))"

subsection \<open>Text output\<close>

text \<open>
  Go's \<^verbatim>\<open>strconv.Itoa\<close> and the \<^verbatim>\<open>String\<close> method of \<^verbatim>\<open>abi.ChainEpoch\<close>: the decimal
  digits of an integer, with a minus sign when it is negative.
\<close>

definition digit :: "nat \<Rightarrow> char" where
  "digit d = ''0123456789'' ! d"

function decimal :: "nat \<Rightarrow> string" where
  "decimal n = (if n < 10 then [digit n] else decimal (n div 10) @ [digit (n mod 10)])"
  by pat_completeness auto
termination
  by (relation "measure id") auto

declare decimal.simps [simp del]

definition Itoa :: "int \<Rightarrow> string" where
  "Itoa i = (if i < 0 then CHR ''-'' # decimal (nat (- i)) else decimal (nat i))"

definition tab :: string where
  "tab = [CHR 0x09]"

definition nl :: string where
  "nl = [CHR 0x0A]"

text \<open>
  \<^verbatim>\<open>fmt.Fprintln\<close>, which the writer's \<^verbatim>\<open>Println\<close> hands its operands to: the operands
  in their default format, a space between every two, a newline at the end. The operands
  arrive here already formatted; the buffer \<open>w\<close> is a \<^verbatim>\<open>bytes.Buffer\<close>, which grows and
  does not fail.
\<close>

fun spaced :: "string list \<Rightarrow> string" where
  "spaced [] = []"
| "spaced [a] = a"
| "spaced (a # b # bs) = a @ '' '' @ spaced (b # bs)"

definition Println :: "string list \<Rightarrow> string \<Rightarrow> string" where
  "Println operands w = w @ spaced operands @ nl"

type_synonym error = string

text \<open>The default format of a Go \<^verbatim>\<open>error\<close> value: its message, or \<^verbatim>\<open><nil>\<close> for nil.\<close>

definition showErr :: "error option \<Rightarrow> string" where
  "showErr e = (case e of None \<Rightarrow> ''<nil>'' | Some m \<Rightarrow> m)"

subsection \<open>Tip-sets\<close>

type_synonym Cid = string

type_synonym TipSetKey = "Cid list"

type_synonym ChainEpoch = "64 word"

text \<open>
  Modelled from the spec: the type \<^verbatim>\<open>TipSet\<close> of pkg/block, which is not among the sources.
  By section 3 a tip-set is a non-empty set of blocks of one height, so its height and its
  first block exist; the record holds what the code below reads from a tip-set:
  \<^verbatim>\<open>ts.EnsureHeight()\<close> (an \<^verbatim>\<open>abi.ChainEpoch\<close>, a signed 64-bit integer), \<^verbatim>\<open>ts.Key()\<close> and
  \<^verbatim>\<open>ts.At(0).ParentStateRoot\<close>.
\<close>

record TipSet =
  EnsureHeight :: ChainEpoch
  Key :: TipSetKey
  ParentStateRoot :: Cid

subsection \<open>Sync targets and the chain status command (cmd/chain.go)\<close>

text \<open>
  Modelled from the spec: the stages of a target, section 4.5 (the type
  \<^verbatim>\<open>SyncStateStage\<close> of pkg/chainsync/types is not among the sources).
\<close>

datatype SyncStateStage = StageIdle | StageFetching | StageValidating | StageComplete | StageFailed

text \<open>
  A \<^verbatim>\<open>Target\<close> as the status command reads it. \<^verbatim>\<open>Base\<close>, \<^verbatim>\<open>Head\<close> and \<^verbatim>\<open>Current\<close> are
  pointers to tip-sets and may be nil (\<open>None\<close>); \<^verbatim>\<open>Err\<close> is a Go \<^verbatim>\<open>error\<close>, nil while there
  is none.
\<close>

record Target =
  State :: SyncStateStage
  Base :: "TipSet option"
  Head :: "TipSet option"
  Current :: "TipSet option"
  Err :: "error option"

text \<open>
  The tracker as the command reads it: \<^verbatim>\<open>Buckets()\<close>, the slice of active targets, and
  \<^verbatim>\<open>History()\<close>, the list of finished ones, front first.
\<close>

record TargetTracker =
  Buckets :: "Target list"
  History :: "Target list"

datatype panic = NilPointerDereference

text \<open>
  The body of both loops of the command, which is the same text twice: seven calls of
  \<^verbatim>\<open>Println\<close> on the buffer. \<open>idx\<close> is the number already formatted by \<^verbatim>\<open>strconv.Itoa\<close>;
  \<open>ks\<close> is \<^verbatim>\<open>TipSetKey.String\<close>, which is not among the sources and is a parameter.
  \<^verbatim>\<open>t.Base\<close> and \<^verbatim>\<open>t.Head\<close> are used without a nil check, and a nil pointer there is
  the run-time panic of a nil dereference; \<^verbatim>\<open>t.Current\<close> is tested first.
\<close>

definition printTarget ::
  "(TipSetKey \<Rightarrow> string) \<Rightarrow> string \<Rightarrow> Target \<Rightarrow> string \<Rightarrow> panic + string" where
  "printTarget ks idx t w0 =
     (let w1 = Println [''SyncTarget:'', idx] w0 in
      case Base t of
        None \<Rightarrow> Inl NilPointerDereference
      | Some b \<Rightarrow>
     (let w2 = Println [tab @ ''Base:'', Itoa (sint (EnsureHeight b)), ks (Key b)] w1 in
      case Head t of
        None \<Rightarrow> Inl NilPointerDereference
      | Some h \<Rightarrow>
     (let w3 = Println [tab @ ''Target:'', Itoa (sint (EnsureHeight h)), ks (Key h)] w2;
          w4 = (case Current t of
                  Some c \<Rightarrow>
                    Println [tab @ ''Current:'', Itoa (sint (EnsureHeight c)), ks (Key c)] w3
                | None \<Rightarrow> Println [tab @ ''Current:''] w3);
          w5 = (if State t \<noteq> StageIdle then Println [tab @ ''Status:Syncing''] w4
                else Println [tab @ ''Status:Wait''] w4);
          w6 = Println [tab @ ''Err:'', showErr (Err t)] w5
      in Inr (Println [] w6))))"

text \<open>
  \<^verbatim>\<open>for index, t := range targets\<close>: the entry is numbered \<^verbatim>\<open>index+1\<close>.
\<close>

fun rangeTargets ::
  "(TipSetKey \<Rightarrow> string) \<Rightarrow> nat \<Rightarrow> Target list \<Rightarrow> string \<Rightarrow> panic + string" where
  "rangeTargets ks index [] w = Inr w"
| "rangeTargets ks index (t # ts) w =
     (case printTarget ks (Itoa (int index + 1)) t w of
        Inl p \<Rightarrow> Inl p
      | Inr w' \<Rightarrow> rangeTargets ks (index + 1) ts w')"

text \<open>
  \<^verbatim>\<open>for target := history.Front(); target != nil; target = target.Next()\<close>: the entry is
  numbered \<^verbatim>\<open>count+1\<close>, and \<^verbatim>\<open>count++\<close> follows.
\<close>

fun rangeHistory ::
  "(TipSetKey \<Rightarrow> string) \<Rightarrow> nat \<Rightarrow> Target list \<Rightarrow> string \<Rightarrow> panic + string" where
  "rangeHistory ks count [] w = Inr w"
| "rangeHistory ks count (t # ts) w =
     (case printTarget ks (Itoa (int count + 1)) t w of
        Inl p \<Rightarrow> Inl p
      | Inr w' \<Rightarrow> rangeHistory ks (count + 1) ts w')"

text \<open>
  The command: the result is the buffer that \<^verbatim>\<open>re.Emit\<close> receives, or the panic that ends
  the command before anything is emitted.
\<close>

definition chainStatusCmd :: "(TipSetKey \<Rightarrow> string) \<Rightarrow> TargetTracker \<Rightarrow> panic + string" where
  "chainStatusCmd ks tracker =
     (let targets = Buckets tracker in
      case rangeTargets ks 0 targets [] of
        Inl p \<Rightarrow> Inl p
      | Inr w \<Rightarrow> rangeHistory ks (length targets) (History tracker) w)"

text \<open>
  What the theorems below say about the output. \<open>present t\<close>: the two tip-sets the command
  dereferences without a check are there. \<open>tipsetText\<close>: a height and a key as two operands
  of \<^verbatim>\<open>Println\<close>. \<open>entryBody\<close>: the six lines of an entry after its numbered first line.
\<close>

definition present :: "Target \<Rightarrow> bool" where
  "present t \<longleftrightarrow> Base t \<noteq> None \<and> Head t \<noteq> None"

definition tipsetText :: "(TipSetKey \<Rightarrow> string) \<Rightarrow> TipSet \<Rightarrow> string" where
  "tipsetText ks ts = Itoa (sint (EnsureHeight ts)) @ '' '' @ ks (Key ts)"

definition currentLine :: "(TipSetKey \<Rightarrow> string) \<Rightarrow> Target \<Rightarrow> string" where
  "currentLine ks t =
     (case Current t of
        None \<Rightarrow> tab @ ''Current:'' @ nl
      | Some c \<Rightarrow> tab @ ''Current: '' @ tipsetText ks c @ nl)"

definition statusLine :: "Target \<Rightarrow> string" where
  "statusLine t =
     (if State t = StageIdle then tab @ ''Status:Wait'' @ nl else tab @ ''Status:Syncing'' @ nl)"

definition errLine :: "Target \<Rightarrow> string" where
  "errLine t = tab @ ''Err: '' @ showErr (Err t) @ nl"

definition entryBody :: "(TipSetKey \<Rightarrow> string) \<Rightarrow> Target \<Rightarrow> string" where
  "entryBody ks t =
     tab @ ''Base: '' @ tipsetText ks (the (Base t)) @ nl
     @ tab @ ''Target: '' @ tipsetText ks (the (Head t)) @ nl
     @ currentLine ks t @ statusLine t @ errLine t @ nl"

definition entry :: "(TipSetKey \<Rightarrow> string) \<Rightarrow> nat \<Rightarrow> Target \<Rightarrow> string" where
  "entry ks n t = ''SyncTarget: '' @ Itoa (int n) @ nl @ entryBody ks t"

fun entries :: "(TipSetKey \<Rightarrow> string) \<Rightarrow> nat \<Rightarrow> Target list \<Rightarrow> string" where
  "entries ks n [] = []"
| "entries ks n (t # ts) = entry ks n t @ entries ks (Suc n) ts"

subsection \<open>The set-head command (cmd/chain.go)\<close>

text \<open>
  Modelled from the spec: \<^verbatim>\<open>block.NewTipSetKey\<close> (pkg/block is not among the sources). By
  section 3 a key is an ordered, deduplicated set of block content hashes whose identity is
  the sorted set; a CID is compared by its canonical serialization.
\<close>

definition NewTipSetKey :: "Cid list \<Rightarrow> TipSetKey" where
  "NewTipSetKey cids = sort (remdups cids)"

text \<open>
  The command's \<^verbatim>\<open>Run\<close> function. \<open>cidsFromSlice\<close> (a helper of the command package that
  is not among the sources) turns the arguments into CIDs or fails with the parsing error;
  \<open>ChainSetHead\<close> is the chain API's operation, acting on the node's state \<open>'s\<close>. Both are
  parameters. The result is the returned error (\<open>None\<close> for nil) and the node's state.
\<close>

definition chainSetHeadCmd ::
  "(string list \<Rightarrow> error + Cid list) \<Rightarrow> (TipSetKey \<Rightarrow> 's \<Rightarrow> error option \<times> 's)
     \<Rightarrow> string list \<Rightarrow> 's \<Rightarrow> error option \<times> 's" where
  "chainSetHeadCmd cidsFromSlice ChainSetHead arguments node =
     (case cidsFromSlice arguments of
        Inl err \<Rightarrow> (Some err, node)
      | Inr headCids \<Rightarrow>
          (let maybeNewHead = NewTipSetKey headCids in ChainSetHead maybeNewHead node))"

subsection \<open>Fork choice\<close>

text \<open>
  Modelled from the spec: the Fork-Choice Resolver of section 4.6, none of whose code is
  among the sources. A validated chain is known by the key of its tip-set and its weight.
  The candidate is selected against the current head when its weight is strictly greater,
  and, on an exact tie of the weights, when its tip-set's canonical serialization is the
  lexicographically smaller one.
\<close>

record Chain =
  tipKey :: TipSetKey
  weight :: int

definition selects :: "Chain \<Rightarrow> Chain \<Rightarrow> bool" where
  "selects candidate current \<longleftrightarrow>
     weight current < weight candidate
     \<or> (weight candidate = weight current \<and> tipKey candidate < tipKey current)"

text \<open>The head after a validated candidate has been put to the resolver.\<close>

definition resolve :: "Chain \<Rightarrow> Chain \<Rightarrow> Chain" where
  "resolve current candidate = (if selects candidate current then candidate else current)"

subsection \<open>Big integers\<close>

text \<open>
  \<^verbatim>\<open>big.Int\<close> of go-state-types wraps a pointer to an arbitrary-precision integer. Its zero
  value \<^verbatim>\<open>big.Int{}\<close> holds the nil pointer (\<open>BigNil\<close>); \<^verbatim>\<open>big.Zero()\<close> is \<open>Big 0\<close>.
  \<^verbatim>\<open>big.Mul\<close> multiplies; \<^verbatim>\<open>big.Div\<close> is the Euclidean division of Go's math/big, whose
  remainder is never negative. Division by zero panics there; the only divisor in the code
  below is the constant \<open>initialPledgeDen\<close>.
\<close>

datatype big_Int = BigNil | Big int

definition big_Mul :: "int \<Rightarrow> int \<Rightarrow> int" where
  "big_Mul a b = a * b"

definition big_Div :: "int \<Rightarrow> int \<Rightarrow> int" where
  "big_Div a b = (if 0 < b then a div b else - (a div (- b)))"

definition initialPledgeNum :: int where
  "initialPledgeNum = 110"

definition initialPledgeDen :: int where
  "initialPledgeDen = 100"

subsection \<open>The miner state API (app/submodule/chain)\<close>

type_synonym Address = string

record CirculatingSupply =
  FilVested :: big_Int
  FilMined :: big_Int
  FilBurnt :: big_Int
  FilLocked :: big_Int
  FilCirculating :: big_Int

text \<open>The zero value \<^verbatim>\<open>chain.CirculatingSupply{}\<close>.\<close>

definition CirculatingSupply_zero :: CirculatingSupply where
  "CirculatingSupply_zero =
     \<lparr>FilVested = BigNil, FilMined = BigNil, FilBurnt = BigNil, FilLocked = BigNil,
      FilCirculating = BigNil\<rparr>"

record FilterEstimate =
  PositionEstimate :: int
  VelocityEstimate :: int

record SectorPreCommitInfo =
  SealProof :: "64 word"
  DealIDs :: "64 word list"
  Expiration :: ChainEpoch

text \<open>
  What the two functions below call on the chain submodule and on the actor packages, none
  of it among the sources: each is a field of this record. A call that returns a value and
  an error, and whose value the caller drops when the error is not nil, is a sum (\<open>Inl\<close> the
  error); \<^verbatim>\<open>GetActor\<close> returns \<open>Inr None\<close> when there is no error and the actor is not found;
  \<^verbatim>\<open>GetCirculatingSupplyDetailed\<close>, whose pair the caller returns as it is, is a pair.
  \<open>'tree\<close> is the state tree, \<open>'act\<close> an actor, \<open>'mkt\<close>, \<open>'pow\<close> and \<open>'rew\<close> the loaded states of
  the market, power and reward actors.
\<close>

record ('tree, 'act, 'mkt, 'pow, 'rew) ChainSubmodule =
  GetTipSet :: "TipSetKey \<Rightarrow> error + TipSet"
  GetTipSetStateRoot :: "TipSetKey \<Rightarrow> error + Cid"
  LoadState :: "Cid \<Rightarrow> error + 'tree"
  GetCirculatingSupplyDetailed :: "ChainEpoch \<Rightarrow> 'tree \<Rightarrow> CirculatingSupply \<times> error option"
  SectorSize :: "64 word \<Rightarrow> error + 64 word"
  GetActor :: "'tree \<Rightarrow> Address \<Rightarrow> error + 'act option"
  marketAddress :: Address
  powerAddress :: Address
  rewardAddress :: Address
  marketLoad :: "'act \<Rightarrow> error + 'mkt"
  powerLoad :: "'act \<Rightarrow> error + 'pow"
  rewardLoad :: "'act \<Rightarrow> error + 'rew"
  VerifyDealsForActivation ::
    "'mkt \<Rightarrow> Address \<Rightarrow> 64 word list \<Rightarrow> ChainEpoch \<Rightarrow> ChainEpoch \<Rightarrow> error + int \<times> int"
  QAPowerForWeight :: "64 word \<Rightarrow> ChainEpoch \<Rightarrow> int \<Rightarrow> int \<Rightarrow> int"
  TotalPowerSmoothed :: "'pow \<Rightarrow> error + FilterEstimate"
  PreCommitDepositForPower :: "'rew \<Rightarrow> FilterEstimate \<Rightarrow> int \<Rightarrow> error + int"

definition StateVMCirculatingSupplyInternal ::
  "('tree, 'act, 'mkt, 'pow, 'rew) ChainSubmodule \<Rightarrow> TipSetKey
     \<Rightarrow> CirculatingSupply \<times> error option" where
  "StateVMCirculatingSupplyInternal c tsk =
     (case GetTipSet c tsk of
        Inl err \<Rightarrow> (CirculatingSupply_zero, Some err)
      | Inr ts \<Rightarrow>
     (case GetTipSetStateRoot c tsk of
        Inl err \<Rightarrow> (CirculatingSupply_zero, Some err)
      | Inr root \<Rightarrow>
     (case LoadState c root of
        Inl err \<Rightarrow> (CirculatingSupply_zero, Some err)
      | Inr sTree \<Rightarrow> GetCirculatingSupplyDetailed c (EnsureHeight ts) sTree)))"

definition StateMinerPreCommitDepositForPower ::
  "('tree, 'act, 'mkt, 'pow, 'rew) ChainSubmodule \<Rightarrow> Address \<Rightarrow> SectorPreCommitInfo
     \<Rightarrow> TipSetKey \<Rightarrow> big_Int \<times> error option" where
  "StateMinerPreCommitDepositForPower c maddr pci tsk =
     (case GetTipSet c tsk of
        Inl err \<Rightarrow> (BigNil, Some err)
      | Inr ts \<Rightarrow>
     (case LoadState c (ParentStateRoot ts) of
        Inl err \<Rightarrow> (BigNil, Some err)
      | Inr sTree \<Rightarrow>
     (case SectorSize c (SealProof pci) of
        Inl err \<Rightarrow> (BigNil, Some (''failed to get resolve size: '' @ err))
      | Inr ssize \<Rightarrow>
     (case GetActor c sTree (marketAddress c) of
        Inl err \<Rightarrow> (BigNil, Some (''loading market actor '' @ maddr @ '': '' @ err))
      | Inr None \<Rightarrow> (BigNil, Some (''loading market actor '' @ maddr @ '': <nil>''))
      | Inr (Some mact) \<Rightarrow>
     (case marketLoad c mact of
        Inl err \<Rightarrow> (BigNil, Some (''loading market actor state '' @ maddr @ '': '' @ err))
      | Inr ms \<Rightarrow>
     (case VerifyDealsForActivation c ms maddr (DealIDs pci) (EnsureHeight ts) (Expiration pci) of
        Inl err \<Rightarrow> (BigNil, Some (''verifying deals for activation: '' @ err))
      | Inr (w, vw) \<Rightarrow>
     (let duration = Expiration pci - EnsureHeight ts;
          sectorWeight = QAPowerForWeight c ssize duration w vw in
      case GetActor c sTree (powerAddress c) of
        Inl err \<Rightarrow> (BigNil, Some (''loading power actor: '' @ err))
      | Inr None \<Rightarrow> (BigNil, Some ''loading power actor: <nil>'')
      | Inr (Some pact) \<Rightarrow>
     (case powerLoad c pact of
        Inl err \<Rightarrow> (BigNil, Some (''loading power actor state: '' @ err))
      | Inr ps \<Rightarrow>
     (case TotalPowerSmoothed c ps of
        Inl err \<Rightarrow> (BigNil, Some (''failed to determine total power: '' @ err))
      | Inr powerSmoothed \<Rightarrow>
     (case GetActor c sTree (rewardAddress c) of
        Inl err \<Rightarrow> (BigNil, Some (''loading miner actor: '' @ err))
      | Inr None \<Rightarrow> (BigNil, Some ''loading miner actor: <nil>'')
      | Inr (Some rewardActor) \<Rightarrow>
     (case rewardLoad c rewardActor of
        Inl err \<Rightarrow> (BigNil, Some (''loading reward actor state: '' @ err))
      | Inr rewardState \<Rightarrow>
     (case PreCommitDepositForPower c rewardState powerSmoothed sectorWeight of
        Inl err \<Rightarrow> (Big 0, Some (''calculating precommit deposit: '' @ err))
      | Inr deposit \<Rightarrow>
          (Big (big_Div (big_Mul deposit initialPledgeNum) initialPledgeDen), None)))))))))))))"

subsection \<open>The datastore wallet backend (pkg/wallet/dsbackend.go)\<close>

type_synonym Protocol = byte

text \<open>The protocol numbers of go-address that the switch names.\<close>

definition SECP256K1 :: Protocol where
  "SECP256K1 = 1"

definition BLS :: Protocol where
  "BLS = 3"

text \<open>\<^verbatim>\<open>address.Undef\<close>, the zero value of an address.\<close>

definition Undef :: Address where
  "Undef = []"

record KeyInfo =
  PrivateKey :: "byte list"
  SigType :: nat

record WalletKey =
  ID :: "byte list"
  Address :: Address
  KeyInfo :: KeyInfo

record PassphraseConfig =
  ScryptN :: int
  ScryptP :: int

type_synonym Datastore = "string \<rightharpoonup> byte list"

record DSBackend =
  ds :: Datastore
  addressCache :: "Address set"
  keyInfoCache :: "string \<rightharpoonup> KeyInfo"
  PassphraseConf :: PassphraseConfig

text \<open>
  What the backend calls outside this file, as parameters: the two key generators (each the
  result of one call on \<^verbatim>\<open>rand.Reader\<close>), \<^verbatim>\<open>ki.Address()\<close>, \<^verbatim>\<open>uuid.NewRandom()\<close>,
  \<^verbatim>\<open>encryptKey\<close>, \<^verbatim>\<open>ds.NewKey\<close> and the datastore's \<^verbatim>\<open>Put\<close>.
\<close>

record WalletEnv =
  NewSecpKeyFromSeed :: "error + KeyInfo"
  NewBLSKeyFromSeed :: "error + KeyInfo"
  KeyInfoAddress :: "KeyInfo \<Rightarrow> Address \<times> error option"
  NewRandom :: "byte list"
  encryptKey :: "WalletKey \<Rightarrow> string \<Rightarrow> int \<Rightarrow> int \<Rightarrow> error + byte list"
  NewKey :: "string \<Rightarrow> string"
  Put :: "Datastore \<Rightarrow> string \<Rightarrow> byte list \<Rightarrow> error option \<times> Datastore"

definition putKeyInfoPassphrase ::
  "WalletEnv \<Rightarrow> KeyInfo \<Rightarrow> string \<Rightarrow> DSBackend \<Rightarrow> error option \<times> DSBackend" where
  "putKeyInfoPassphrase env ki password backend =
     (case KeyInfoAddress env ki of
        (addr, Some err) \<Rightarrow> (Some err, backend)
      | (addr, None) \<Rightarrow>
     (let key = \<lparr>ID = NewRandom env, Address = addr, KeyInfo = ki\<rparr> in
      case encryptKey env key password (ScryptN (PassphraseConf backend))
             (ScryptP (PassphraseConf backend)) of
        Inl err \<Rightarrow> (Some err, backend)
      | Inr keyJSON \<Rightarrow>
     (case Put env (ds backend) (NewKey env (Address key)) keyJSON of
        (Some err, ds') \<Rightarrow>
          (Some (''failed to store new address: '' @ Address key @ '': '' @ err),
           backend\<lparr>ds := ds'\<rparr>)
      | (None, ds') \<Rightarrow>
          (None, backend\<lparr>ds := ds', addressCache := insert addr (addressCache backend),
                         keyInfoCache := (keyInfoCache backend)(addr \<mapsto> ki)\<rparr>))))"

definition newSecpAddress ::
  "WalletEnv \<Rightarrow> string \<Rightarrow> DSBackend \<Rightarrow> (Address \<times> error option) \<times> DSBackend" where
  "newSecpAddress env password backend =
     (case NewSecpKeyFromSeed env of
        Inl err \<Rightarrow> ((Undef, Some err), backend)
      | Inr ki \<Rightarrow>
     (case putKeyInfoPassphrase env ki password backend of
        (Some err, backend') \<Rightarrow> ((Undef, Some err), backend')
      | (None, backend') \<Rightarrow> (KeyInfoAddress env ki, backend')))"

definition newBLSAddress ::
  "WalletEnv \<Rightarrow> string \<Rightarrow> DSBackend \<Rightarrow> (Address \<times> error option) \<times> DSBackend" where
  "newBLSAddress env password backend =
     (case NewBLSKeyFromSeed env of
        Inl err \<Rightarrow> ((Undef, Some err), backend)
      | Inr ki \<Rightarrow>
     (case putKeyInfoPassphrase env ki password backend of
        (Some err, backend') \<Rightarrow> ((Undef, Some err), backend')
      | (None, backend') \<Rightarrow> (KeyInfoAddress env ki, backend')))"

definition NewAddress ::
  "WalletEnv \<Rightarrow> Protocol \<Rightarrow> string \<Rightarrow> DSBackend \<Rightarrow> (Address \<times> error option) \<times> DSBackend" where
  "NewAddress env protocol password backend =
     (if protocol = BLS then newBLSAddress env password backend
      else if protocol = SECP256K1 then newSecpAddress env password backend
      else ((Undef, Some (''Unknown address protocol '' @ Itoa (uint protocol))), backend))"

subsection \<open>Example collaborators\<close>

definition exampleWallet :: WalletEnv where
  "exampleWallet =
     \<lparr>NewSecpKeyFromSeed = Inr \<lparr>PrivateKey = [1, 2, 3], SigType = 1\<rparr>,
      NewBLSKeyFromSeed = Inr \<lparr>PrivateKey = [4, 5, 6], SigType = 2\<rparr>,
      KeyInfoAddress = (\<lambda>ki. (if SigType ki = 1 then ''f1abc'' else ''f3def'', None)),
      NewRandom = [9, 9],
      encryptKey = (\<lambda>key password n p. Inr (PrivateKey (KeyInfo key))),
      NewKey = (\<lambda>s. ''/'' @ s),
      Put = (\<lambda>store k v. (None, store(k \<mapsto> v)))\<rparr>"

definition exampleBackend :: DSBackend where
  "exampleBackend =
     \<lparr>ds = Map.empty, addressCache = {}, keyInfoCache = Map.empty,
      PassphraseConf = \<lparr>ScryptN = 2097152, ScryptP = 1\<rparr>\<rparr>"

definition exampleCidsFromSlice :: "string list \<Rightarrow> error + Cid list" where
  "exampleCidsFromSlice arguments =
     (if [] \<in> set arguments then Inl ''invalid cid: cid too short'' else Inr arguments)"

definition exampleChainSetHead ::
  "TipSetKey \<Rightarrow> TipSetKey list \<times> TipSetKey \<Rightarrow> error option \<times> (TipSetKey list \<times> TipSetKey)" where
  "exampleChainSetHead k node =
     (if k \<in> set (fst node) then (None, (fst node, k)) else (Some ''UnknownTipSet'', node))"

definition exampleChain :: "(Address \<rightharpoonup> nat, nat, nat, nat, nat) ChainSubmodule" where
  "exampleChain =
     \<lparr>GetTipSet = (\<lambda>tsk. if tsk = [''c1'']
                      then Inr \<lparr>EnsureHeight = 100, Key = [''c1''], ParentStateRoot = ''r0''\<rparr>
                      else Inl ''NotFound''),
      GetTipSetStateRoot = (\<lambda>tsk. if tsk = [''c1''] then Inr ''r1'' else Inl ''NotFound''),
      LoadState = (\<lambda>root. if root = ''r0'' \<or> root = ''r1''
                      then Inr [''f02'' \<mapsto> 2, ''f04'' \<mapsto> 4, ''f05'' \<mapsto> 5]
                      else Inl ''state not found''),
      GetCirculatingSupplyDetailed = (\<lambda>height sTree.
         (\<lparr>FilVested = Big 10, FilMined = Big 20, FilBurnt = Big 3, FilLocked = Big 7,
           FilCirculating = Big 20\<rparr>, None)),
      SectorSize = (\<lambda>proof. Inr 2048),
      GetActor = (\<lambda>sTree addr. Inr (sTree addr)),
      marketAddress = ''f05'',
      powerAddress = ''f04'',
      rewardAddress = ''f02'',
      marketLoad = Inr,
      powerLoad = Inr,
      rewardLoad = Inr,
      VerifyDealsForActivation = (\<lambda>ms maddr deals height expiration. Inr (0, 0)),
      QAPowerForWeight = (\<lambda>ssize duration w vw. uint ssize * sint duration),
      TotalPowerSmoothed = (\<lambda>ps. Inr \<lparr>PositionEstimate = 1, VelocityEstimate = 0\<rparr>),
      PreCommitDepositForPower = (\<lambda>rs estimate sectorWeight. Inr 1005)\<rparr>"

subsection \<open>Example targets\<close>

definition exampleQueued :: Target where
  "exampleQueued =
     \<lparr>State = StageIdle,
      Base = Some \<lparr>EnsureHeight = 5, Key = [''a''], ParentStateRoot = ''r''\<rparr>,
      Head = Some \<lparr>EnsureHeight = 14, Key = [''f''], ParentStateRoot = ''w''\<rparr>,
      Current = None, Err = None\<rparr>"

definition exampleActive :: Target where
  "exampleActive =
     \<lparr>State = StageValidating,
      Base = Some \<lparr>EnsureHeight = 5, Key = [''a''], ParentStateRoot = ''r''\<rparr>,
      Head = Some \<lparr>EnsureHeight = 12, Key = [''b'', ''c''], ParentStateRoot = ''s''\<rparr>,
      Current = Some \<lparr>EnsureHeight = 12, Key = [''b'', ''c''], ParentStateRoot = ''s''\<rparr>,
      Err = None\<rparr>"

definition exampleComplete :: Target where
  "exampleComplete = exampleActive\<lparr>State := StageComplete\<rparr>"

definition exampleFailed :: Target where
  "exampleFailed =
     \<lparr>State = StageFailed,
      Base = Some \<lparr>EnsureHeight = 5, Key = [''a''], ParentStateRoot = ''r''\<rparr>,
      Head = Some \<lparr>EnsureHeight = 9, Key = [''d''], ParentStateRoot = ''u''\<rparr>,
      Current = Some \<lparr>EnsureHeight = 7, Key = [''e''], ParentStateRoot = ''v''\<rparr>,
      Err = Some ''StateRootMismatch''\<rparr>"

definition exampleTracker :: TargetTracker where
  "exampleTracker = \<lparr>Buckets = [exampleActive, exampleQueued], History = [exampleFailed]\<rparr>"

section \<open>The API token of the in-memory repository\<close>

lemma SetAPIToken_calls_set:
  "token mr \<noteq> [] \<Longrightarrow> SetAPIToken_calls toks mr = mr"
  by (induction toks arbitrary: mr) (simp_all add: SetAPIToken_def)

lemma SetAPIToken_calls_empties:
  "token mr = [] \<Longrightarrow> \<forall>p \<in> set pre. p = [] \<Longrightarrow>
     SetAPIToken_calls (pre @ rest) mr = SetAPIToken_calls rest mr"
proof (induction pre arbitrary: mr)
  case Nil
  then show ?case by simp
next
  case (Cons p pre)
  from Cons.prems have p: "p = []" by simp
  have same: "snd (SetAPIToken p mr) = mr"
    using Cons.prems(1) p by (simp add: SetAPIToken_def)
  show ?case
    using Cons.IH [of mr] Cons.prems same by simp
qed

text \<open>
  C9. \<^verbatim>\<open>SetAPIToken\<close> is first-write-wins. Every call returns nil. Starting from a
  repository without a token, after any sequence of calls whose first non-empty argument is
  \<open>t\<close> the stored token is \<open>t\<close>, whatever the later arguments are; and a repository that
  already holds a non-empty token is left as it is by every sequence of calls.
\<close>

theorem SetAPIToken_first_write_wins:
  "fst (SetAPIToken tok mr) = None
   \<and> (token mr = [] \<and> (\<forall>p \<in> set pre. p = []) \<and> t \<noteq> []
        \<longrightarrow> token (SetAPIToken_calls (pre @ t # post) mr) = t)
   \<and> (token mr \<noteq> [] \<longrightarrow> SetAPIToken_calls toks mr = mr)"
proof (intro conjI impI)
  show "fst (SetAPIToken tok mr) = None"
    by (simp add: SetAPIToken_def)
next
  assume a: "token mr = [] \<and> (\<forall>p \<in> set pre. p = []) \<and> t \<noteq> []"
  let ?mr' = "snd (SetAPIToken t mr)"
  have stored: "token ?mr' = t"
    using a by (simp add: SetAPIToken_def)
  have "SetAPIToken_calls (pre @ t # post) mr = SetAPIToken_calls (t # post) mr"
    using a SetAPIToken_calls_empties [of mr pre "t # post"] by simp
  also have "\<dots> = SetAPIToken_calls post ?mr'"
    by simp
  also have "\<dots> = ?mr'"
    using a stored SetAPIToken_calls_set [of ?mr' post] by simp
  finally show "token (SetAPIToken_calls (pre @ t # post) mr) = t"
    using stored by simp
next
  assume "token mr \<noteq> []"
  then show "SetAPIToken_calls toks mr = mr"
    by (rule SetAPIToken_calls_set)
qed

theorem SetAPIToken_first_write_wins_witness:
  "token (SetAPIToken_calls ([[], []] @ [7, 9] # [[1], [], [2, 3]])
            \<lparr>version = 1, jsonrpcAddress = [], rustfulAddress = [], token = []\<rparr>) = [7, 9]
   \<and> SetAPIToken_calls [[1], [], [2, 3]]
        \<lparr>version = 1, jsonrpcAddress = [], rustfulAddress = [], token = [7, 9]\<rparr>
       = \<lparr>version = 1, jsonrpcAddress = [], rustfulAddress = [], token = [7, 9]\<rparr>"
  using SetAPIToken_first_write_wins
    [of "[]" "\<lparr>version = 1, jsonrpcAddress = [], rustfulAddress = [], token = []\<rparr>"
        "[[], []]" "[7, 9]" "[[1], [], [2, 3]]" "[]"]
    SetAPIToken_first_write_wins
    [of "[]" "\<lparr>version = 1, jsonrpcAddress = [], rustfulAddress = [], token = [7, 9]\<rparr>"
        "[]" "[1]" "[]" "[[1], [], [2, 3]]"]
  by simp

section \<open>The chain status command\<close>

lemma printTarget_present:
  "present t \<Longrightarrow> printTarget ks (Itoa (int n)) t w = Inr (w @ entry ks n t)"
  by (auto simp: present_def printTarget_def Println_def entry_def entryBody_def tipsetText_def
      currentLine_def statusLine_def errLine_def Let_def split: option.splits)

lemma printTarget_absent:
  "\<not> present t \<Longrightarrow> printTarget ks idx t w = Inl NilPointerDereference"
  by (auto simp: present_def printTarget_def Let_def split: option.splits)

lemma rangeTargets_present:
  "\<forall>t \<in> set ts. present t \<Longrightarrow> rangeTargets ks i ts w = Inr (w @ entries ks (Suc i) ts)"
proof (induction ts arbitrary: i w)
  case Nil
  then show ?case by simp
next
  case (Cons t ts)
  have "printTarget ks (Itoa (int i + 1)) t w = Inr (w @ entry ks (Suc i) t)"
    using Cons.prems printTarget_present [of t ks "Suc i" w] by (simp add: add.commute)
  then show ?case
    using Cons.IH [of "Suc i" "w @ entry ks (Suc i) t"] Cons.prems by simp
qed

lemma rangeHistory_present:
  "\<forall>t \<in> set ts. present t \<Longrightarrow> rangeHistory ks i ts w = Inr (w @ entries ks (Suc i) ts)"
proof (induction ts arbitrary: i w)
  case Nil
  then show ?case by simp
next
  case (Cons t ts)
  have "printTarget ks (Itoa (int i + 1)) t w = Inr (w @ entry ks (Suc i) t)"
    using Cons.prems printTarget_present [of t ks "Suc i" w] by (simp add: add.commute)
  then show ?case
    using Cons.IH [of "Suc i" "w @ entry ks (Suc i) t"] Cons.prems by simp
qed

lemma entries_append:
  "entries ks n (xs @ ys) = entries ks n xs @ entries ks (n + length xs) ys"
  by (induction xs arbitrary: n) simp_all

lemma chainStatusCmd_present:
  assumes "\<forall>t \<in> set (Buckets tr @ History tr). present t"
  shows "chainStatusCmd ks tr = Inr (entries ks 1 (Buckets tr @ History tr))"
proof -
  have b: "rangeTargets ks 0 (Buckets tr) [] = Inr (entries ks 1 (Buckets tr))"
    using assms rangeTargets_present [of "Buckets tr" ks 0 "[]"] by simp
  have h: "rangeHistory ks (length (Buckets tr)) (History tr) (entries ks 1 (Buckets tr))
           = Inr (entries ks 1 (Buckets tr) @ entries ks (Suc (length (Buckets tr))) (History tr))"
    using assms rangeHistory_present [of "History tr" ks] by simp
  show ?thesis
    using b h by (simp add: chainStatusCmd_def entries_append Let_def)
qed

lemma rangeTargets_emits:
  "rangeTargets ks i ts w = Inr out \<Longrightarrow> \<forall>t \<in> set ts. present t"
proof (induction ts arbitrary: i w)
  case Nil
  then show ?case by simp
next
  case (Cons t ts)
  have here: "present t"
  proof (rule ccontr)
    assume "\<not> present t"
    then have "printTarget ks (Itoa (int i + 1)) t w = Inl NilPointerDereference"
      by (rule printTarget_absent)
    with Cons.prems show False by simp
  qed
  then obtain w' where w': "printTarget ks (Itoa (int i + 1)) t w = Inr w'"
    using printTarget_present [of t ks "Suc i" w] by (simp add: add.commute)
  with Cons.prems have "rangeTargets ks (i + 1) ts w' = Inr out"
    by simp
  then have "\<forall>t \<in> set ts. present t"
    by (rule Cons.IH)
  with here show ?case by simp
qed

lemma rangeHistory_emits:
  "rangeHistory ks i ts w = Inr out \<Longrightarrow> \<forall>t \<in> set ts. present t"
proof (induction ts arbitrary: i w)
  case Nil
  then show ?case by simp
next
  case (Cons t ts)
  have here: "present t"
  proof (rule ccontr)
    assume "\<not> present t"
    then have "printTarget ks (Itoa (int i + 1)) t w = Inl NilPointerDereference"
      by (rule printTarget_absent)
    with Cons.prems show False by simp
  qed
  then obtain w' where w': "printTarget ks (Itoa (int i + 1)) t w = Inr w'"
    using printTarget_present [of t ks "Suc i" w] by (simp add: add.commute)
  with Cons.prems have "rangeHistory ks (i + 1) ts w' = Inr out"
    by simp
  then have "\<forall>t \<in> set ts. present t"
    by (rule Cons.IH)
  with here show ?case by simp
qed

text \<open>
  The command emits a buffer exactly when every target it meets has its base and its head
  tip-set; otherwise it ends in the panic, and nothing is emitted.
\<close>

lemma chainStatusCmd_emits_iff:
  "(\<exists>out. chainStatusCmd ks tr = Inr out) \<longleftrightarrow> (\<forall>t \<in> set (Buckets tr @ History tr). present t)"
proof
  assume "\<exists>out. chainStatusCmd ks tr = Inr out"
  then obtain out where out: "chainStatusCmd ks tr = Inr out"
    by blast
  then obtain w where w: "rangeTargets ks 0 (Buckets tr) [] = Inr w"
    and h: "rangeHistory ks (length (Buckets tr)) (History tr) w = Inr out"
    by (auto simp: chainStatusCmd_def Let_def split: sum.splits)
  show "\<forall>t \<in> set (Buckets tr @ History tr). present t"
    using rangeTargets_emits [OF w] rangeHistory_emits [OF h] by auto
next
  assume "\<forall>t \<in> set (Buckets tr @ History tr). present t"
  then show "\<exists>out. chainStatusCmd ks tr = Inr out"
    using chainStatusCmd_present [of tr ks] by blast
qed

lemma entries_nth:
  assumes "j < length ts"
  shows "entries ks n ts =
           entries ks n (take j ts) @ entry ks (n + j) (ts ! j)
           @ entries ks (Suc (n + j)) (drop (Suc j) ts)"
proof -
  have split: "ts = take j ts @ (ts ! j # drop (Suc j) ts)"
    using assms by (simp add: id_take_nth_drop [symmetric])
  have len: "length (take j ts) = j"
    using assms by simp
  have "entries ks n (take j ts @ (ts ! j # drop (Suc j) ts)) =
          entries ks n (take j ts) @ entries ks (n + j) (ts ! j # drop (Suc j) ts)"
    using entries_append [of ks n "take j ts" "ts ! j # drop (Suc j) ts"] len by simp
  then show ?thesis
    using split by simp
qed

lemma entries_concat:
  "entries ks n ts = concat (map (\<lambda>j. entry ks (n + j) (ts ! j)) [0..<length ts])"
proof (induction ts arbitrary: n)
  case Nil
  then show ?case by simp
next
  case (Cons t ts)
  have "map (\<lambda>j. entry ks (n + j) ((t # ts) ! j)) [0..<length (t # ts)] =
          entry ks n t # map (\<lambda>j. entry ks (Suc n + j) (ts ! j)) [0..<length ts]"
    by (simp add: map_upt_Suc del: upt_Suc)
  then show ?case
    using Cons.IH [of "Suc n"] by simp
qed

lemma chainStatusCmd_entry:
  assumes "\<forall>t \<in> set (Buckets tr @ History tr). present t"
    and "j < length (Buckets tr @ History tr)"
  shows "chainStatusCmd ks tr =
           Inr (entries ks 1 (take j (Buckets tr @ History tr))
                @ entry ks (Suc j) ((Buckets tr @ History tr) ! j)
                @ entries ks (Suc (Suc j)) (drop (Suc j) (Buckets tr @ History tr)))"
  using chainStatusCmd_present [OF assms(1), of ks]
    entries_nth [OF assms(2), of ks 1] by simp

lemma errLine_in_entry: "sublist (errLine t) (entry ks n t)"
proof -
  have "entry ks n t =
          (''SyncTarget: '' @ Itoa (int n) @ nl
           @ tab @ ''Base: '' @ tipsetText ks (the (Base t)) @ nl
           @ tab @ ''Target: '' @ tipsetText ks (the (Head t)) @ nl
           @ currentLine ks t @ statusLine t) @ errLine t @ nl"
    by (simp add: entry_def entryBody_def)
  then show ?thesis
    unfolding sublist_def by blast
qed

text \<open>
  C1. When every target of the tracker has its base and head tip-set, which is when there
  is any output at all, the command emits a buffer, and for every target \<open>t\<close> of the
  history that buffer contains the line
  \<^verbatim>\<open>\tErr: \<close> followed by the target's error in its default format and a newline; for a
  recorded error \<open>e\<close> this is the message \<open>e\<close> itself, unchanged.
\<close>

theorem chainStatusCmd_history_err:
  assumes "\<forall>t \<in> set (Buckets tr @ History tr). present t"
    and "t \<in> set (History tr)"
  shows "\<exists>out. chainStatusCmd ks tr = Inr out
           \<and> sublist (tab @ ''Err: '' @ showErr (Err t) @ nl) out
           \<and> (\<forall>e. Err t = Some e \<longrightarrow> sublist (tab @ ''Err: '' @ e @ nl) out)"
proof -
  let ?all = "Buckets tr @ History tr"
  from assms(2) obtain i where i: "i < length (History tr)" and ti: "History tr ! i = t"
    by (auto simp: in_set_conv_nth)
  define j where "j = length (Buckets tr) + i"
  have j: "j < length ?all"
    using i by (simp add: j_def)
  have tj: "?all ! j = t"
    using ti by (simp add: j_def nth_append)
  let ?out = "entries ks 1 (take j ?all) @ entry ks (Suc j) t
              @ entries ks (Suc (Suc j)) (drop (Suc j) ?all)"
  have out: "chainStatusCmd ks tr = Inr ?out"
    using chainStatusCmd_entry [OF assms(1) j, of ks] tj by simp
  have "sublist (entry ks (Suc j) t) ?out"
    by (rule sublist_appendI)
  then have line: "sublist (errLine t) ?out"
    using errLine_in_entry [of t ks "Suc j"] sublist_order.order_trans by blast
  have "\<forall>e. Err t = Some e \<longrightarrow> errLine t = tab @ ''Err: '' @ e @ nl"
    by (simp add: errLine_def showErr_def)
  then show ?thesis
    using out line by (auto simp: errLine_def)
qed

theorem chainStatusCmd_history_err_witness:
  "\<exists>out. chainStatusCmd spaced exampleTracker = Inr out
     \<and> sublist (tab @ ''Err: StateRootMismatch'' @ nl) out"
  using chainStatusCmd_history_err [of exampleTracker exampleFailed spaced]
  by (simp add: exampleTracker_def exampleActive_def exampleQueued_def exampleFailed_def
      present_def showErr_def)

text \<open>
  C5. When every target has its base and head tip-set, the emitted buffer is the entries
  of the active targets, numbered from 1 in the order of \<^verbatim>\<open>Buckets()\<close>, followed by the
  entries of the history, numbered on from the number of active targets plus 1 in the order
  of the list: altogether entry \<open>j + 1\<close> for the \<open>j\<close>-th element of the active targets followed
  by the history, for every \<open>j\<close>, with no number left out.
\<close>

theorem chainStatusCmd_numbering:
  assumes "\<forall>t \<in> set (Buckets tr @ History tr). present t"
  shows "chainStatusCmd ks tr =
           Inr (entries ks 1 (Buckets tr) @ entries ks (length (Buckets tr) + 1) (History tr))
         \<and> entries ks 1 (Buckets tr) @ entries ks (length (Buckets tr) + 1) (History tr) =
             concat (map (\<lambda>j. entry ks (j + 1) ((Buckets tr @ History tr) ! j))
                       [0..<length (Buckets tr) + length (History tr)])"
proof -
  have glue: "entries ks 1 (Buckets tr @ History tr) =
                entries ks 1 (Buckets tr) @ entries ks (length (Buckets tr) + 1) (History tr)"
    by (simp add: entries_append)
  have run: "chainStatusCmd ks tr = Inr (entries ks 1 (Buckets tr @ History tr))"
    using assms by (rule chainStatusCmd_present)
  have "entries ks 1 (Buckets tr @ History tr) =
          concat (map (\<lambda>j. entry ks (j + 1) ((Buckets tr @ History tr) ! j))
                    [0..<length (Buckets tr @ History tr)])"
    using entries_concat [of ks 1 "Buckets tr @ History tr"] by (simp add: add.commute)
  then show ?thesis
    using glue run by simp
qed

theorem chainStatusCmd_numbering_witness:
  "chainStatusCmd spaced exampleTracker =
     Inr (entry spaced 1 exampleActive @ entry spaced 2 exampleQueued
          @ entry spaced 3 exampleFailed)"
  using chainStatusCmd_numbering [of exampleTracker spaced]
  by (simp add: exampleTracker_def exampleActive_def exampleQueued_def exampleFailed_def
      present_def numeral_2_eq_2 numeral_3_eq_3)

text \<open>
  C6. When every target has its base and head tip-set, the command does not panic, whatever
  the \<^verbatim>\<open>Current\<close> fields are: it emits a buffer that holds the entry of every target. The
  entry of a target whose \<^verbatim>\<open>Current\<close> is nil has the line \<^verbatim>\<open>\tCurrent:\<close> with nothing after
  the colon; the entry of a target with a current tip-set has that tip-set's height and key
  on the line.
\<close>

theorem chainStatusCmd_current:
  assumes "\<forall>t \<in> set (Buckets tr @ History tr). present t"
    and "j < length (Buckets tr @ History tr)"
    and "t = (Buckets tr @ History tr) ! j"
  shows "\<exists>pre post. chainStatusCmd ks tr = Inr (pre @ entry ks (j + 1) t @ post)
           \<and> (Current t = None \<longrightarrow>
                entry ks (j + 1) t =
                  ''SyncTarget: '' @ Itoa (int (j + 1)) @ nl
                  @ tab @ ''Base: '' @ tipsetText ks (the (Base t)) @ nl
                  @ tab @ ''Target: '' @ tipsetText ks (the (Head t)) @ nl
                  @ tab @ ''Current:'' @ nl
                  @ statusLine t @ errLine t @ nl)
           \<and> (\<forall>c. Current t = Some c \<longrightarrow>
                entry ks (j + 1) t =
                  ''SyncTarget: '' @ Itoa (int (j + 1)) @ nl
                  @ tab @ ''Base: '' @ tipsetText ks (the (Base t)) @ nl
                  @ tab @ ''Target: '' @ tipsetText ks (the (Head t)) @ nl
                  @ tab @ ''Current: '' @ Itoa (sint (EnsureHeight c)) @ '' '' @ ks (Key c) @ nl
                  @ statusLine t @ errLine t @ nl)"
proof -
  have "chainStatusCmd ks tr =
          Inr (entries ks 1 (take j (Buckets tr @ History tr)) @ entry ks (j + 1) t
               @ entries ks (Suc (Suc j)) (drop (Suc j) (Buckets tr @ History tr)))"
    using chainStatusCmd_entry [OF assms(1) assms(2), of ks] assms(3) by simp
  then have "\<exists>pre post. chainStatusCmd ks tr = Inr (pre @ entry ks (j + 1) t @ post)"
    by blast
  then show ?thesis
    by (simp add: entry_def entryBody_def currentLine_def tipsetText_def)
qed

theorem chainStatusCmd_current_witness:
  "(\<exists>pre post. chainStatusCmd spaced exampleTracker =
       Inr (pre @ (''SyncTarget: 2'' @ nl @ tab @ ''Base: 5 a'' @ nl @ tab @ ''Target: 14 f'' @ nl
                   @ tab @ ''Current:'' @ nl @ tab @ ''Status:Wait'' @ nl
                   @ tab @ ''Err: <nil>'' @ nl @ nl) @ post))
   \<and> (\<exists>pre post. chainStatusCmd spaced exampleTracker =
       Inr (pre @ (''SyncTarget: 3'' @ nl @ tab @ ''Base: 5 a'' @ nl @ tab @ ''Target: 9 d'' @ nl
                   @ tab @ ''Current: 7 e'' @ nl @ tab @ ''Status:Syncing'' @ nl
                   @ tab @ ''Err: StateRootMismatch'' @ nl @ nl) @ post))"
proof -
  have wf: "\<forall>t \<in> set (Buckets exampleTracker @ History exampleTracker). present t"
    by (simp add: exampleTracker_def exampleActive_def exampleQueued_def exampleFailed_def
        present_def)
  have queued: "entry spaced (1 + 1) exampleQueued =
      ''SyncTarget: 2'' @ nl @ tab @ ''Base: 5 a'' @ nl @ tab @ ''Target: 14 f'' @ nl
      @ tab @ ''Current:'' @ nl @ tab @ ''Status:Wait'' @ nl @ tab @ ''Err: <nil>'' @ nl @ nl"
    by (simp add: entry_def entryBody_def currentLine_def statusLine_def errLine_def
        tipsetText_def showErr_def exampleQueued_def Itoa_def decimal.simps digit_def)
  have failed: "entry spaced (2 + 1) exampleFailed =
      ''SyncTarget: 3'' @ nl @ tab @ ''Base: 5 a'' @ nl @ tab @ ''Target: 9 d'' @ nl
      @ tab @ ''Current: 7 e'' @ nl @ tab @ ''Status:Syncing'' @ nl
      @ tab @ ''Err: StateRootMismatch'' @ nl @ nl"
    by (simp add: entry_def entryBody_def currentLine_def statusLine_def errLine_def
        tipsetText_def showErr_def exampleFailed_def Itoa_def decimal.simps digit_def)
  have q: "exampleQueued = (Buckets exampleTracker @ History exampleTracker) ! 1"
    by (simp add: exampleTracker_def)
  have f: "exampleFailed = (Buckets exampleTracker @ History exampleTracker) ! 2"
    by (simp add: exampleTracker_def)
  have l1: "1 < length (Buckets exampleTracker @ History exampleTracker)"
    by (simp add: exampleTracker_def)
  have l2: "2 < length (Buckets exampleTracker @ History exampleTracker)"
    by (simp add: exampleTracker_def)
  show ?thesis
    using chainStatusCmd_current [OF wf l1 q, of spaced]
      chainStatusCmd_current [OF wf l2 f, of spaced] queued failed
    by (metis append.assoc)
qed

text \<open>
  C2, as amended. The command reports a target's state with one of two labels: its entry
  has the line \<^verbatim>\<open>\tStatus:Wait\<close> when the state is \<open>StageIdle\<close> and \<^verbatim>\<open>\tStatus:Syncing\<close> for
  each of the four other states, and what the command prints for a target is the same for
  any two states that are both not idle.
\<close>

theorem chainStatusCmd_status_label:
  assumes "\<forall>t \<in> set (Buckets tr @ History tr). present t"
    and "j < length (Buckets tr @ History tr)"
    and "t = (Buckets tr @ History tr) ! j"
  shows "(\<exists>pre post. chainStatusCmd ks tr = Inr (pre @ entry ks (j + 1) t @ post))
         \<and> entry ks (j + 1) t =
             ''SyncTarget: '' @ Itoa (int (j + 1)) @ nl
             @ tab @ ''Base: '' @ tipsetText ks (the (Base t)) @ nl
             @ tab @ ''Target: '' @ tipsetText ks (the (Head t)) @ nl
             @ currentLine ks t
             @ tab @ (if State t = StageIdle then ''Status:Wait'' else ''Status:Syncing'') @ nl
             @ errLine t @ nl
         \<and> (\<forall>s idx w. (s = StageIdle \<longleftrightarrow> State t = StageIdle) \<longrightarrow>
                printTarget ks idx (t\<lparr>State := s\<rparr>) w = printTarget ks idx t w)"
proof -
  have "chainStatusCmd ks tr =
          Inr (entries ks 1 (take j (Buckets tr @ History tr)) @ entry ks (j + 1) t
               @ entries ks (Suc (Suc j)) (drop (Suc j) (Buckets tr @ History tr)))"
    using chainStatusCmd_entry [OF assms(1) assms(2), of ks] assms(3) by simp
  then have "\<exists>pre post. chainStatusCmd ks tr = Inr (pre @ entry ks (j + 1) t @ post)"
    by blast
  moreover have "printTarget ks idx (t\<lparr>State := s\<rparr>) w = printTarget ks idx t w"
    if "s = StageIdle \<longleftrightarrow> State t = StageIdle" for s idx w
    using that by (auto simp: printTarget_def Let_def split: option.splits)
  ultimately show ?thesis
    by (simp add: entry_def entryBody_def currentLine_def statusLine_def errLine_def)
qed

theorem chainStatusCmd_status_label_witness:
  "(\<exists>pre post. chainStatusCmd spaced exampleTracker =
       Inr (pre @ entry spaced (1 + 1) exampleQueued @ post))
   \<and> entry spaced (1 + 1) exampleQueued =
       ''SyncTarget: 2'' @ nl @ tab @ ''Base: 5 a'' @ nl @ tab @ ''Target: 14 f'' @ nl
       @ tab @ ''Current:'' @ nl @ tab @ ''Status:Wait'' @ nl @ tab @ ''Err: <nil>'' @ nl @ nl"
proof -
  have wf: "\<forall>t \<in> set (Buckets exampleTracker @ History exampleTracker). present t"
    by (simp add: exampleTracker_def exampleActive_def exampleQueued_def exampleFailed_def
        present_def)
  have q: "exampleQueued = (Buckets exampleTracker @ History exampleTracker) ! 1"
    by (simp add: exampleTracker_def)
  have l1: "1 < length (Buckets exampleTracker @ History exampleTracker)"
    by (simp add: exampleTracker_def)
  have vals: "Itoa 2 = ''2''"
    "tipsetText spaced (the (Base exampleQueued)) = ''5 a''"
    "tipsetText spaced (the (Head exampleQueued)) = ''14 f''"
    "currentLine spaced exampleQueued = tab @ ''Current:'' @ nl"
    "errLine exampleQueued = tab @ ''Err: <nil>'' @ nl" "State exampleQueued = StageIdle"
    by (simp_all add: currentLine_def errLine_def tipsetText_def showErr_def exampleQueued_def
        Itoa_def decimal.simps digit_def)
  note label = chainStatusCmd_status_label [OF wf l1 q, of spaced]
  from label have shown: "\<exists>pre post. chainStatusCmd spaced exampleTracker =
       Inr (pre @ entry spaced (1 + 1) exampleQueued @ post)"
    by (rule conjunct1)
  from label have "entry spaced (1 + 1) exampleQueued =
             ''SyncTarget: '' @ Itoa (int (1 + 1)) @ nl
             @ tab @ ''Base: '' @ tipsetText spaced (the (Base exampleQueued)) @ nl
             @ tab @ ''Target: '' @ tipsetText spaced (the (Head exampleQueued)) @ nl
             @ currentLine spaced exampleQueued
             @ tab @ (if State exampleQueued = StageIdle then ''Status:Wait''
                      else ''Status:Syncing'') @ nl
             @ errLine exampleQueued @ nl"
    by blast
  then have "entry spaced (1 + 1) exampleQueued =
       ''SyncTarget: 2'' @ nl @ tab @ ''Base: 5 a'' @ nl @ tab @ ''Target: 14 f'' @ nl
       @ tab @ ''Current:'' @ nl @ tab @ ''Status:Wait'' @ nl @ tab @ ''Err: <nil>'' @ nl @ nl"
    by (simp add: vals)
  with shown show ?thesis
    by (rule conjI)
qed

text \<open>
  C2 as stated fails: a target that is still validating and a target that is complete, alike
  in everything else, are printed as the same text, with \<^verbatim>\<open>Status:Syncing\<close> for both.
\<close>

theorem chainStatusCmd_status_counterexample:
  "chainStatusCmd spaced \<lparr>Buckets = [exampleActive], History = []\<rparr> =
     chainStatusCmd spaced \<lparr>Buckets = [], History = [exampleComplete]\<rparr>
   \<and> chainStatusCmd spaced \<lparr>Buckets = [], History = [exampleComplete]\<rparr> =
       Inr (''SyncTarget: 1'' @ nl @ tab @ ''Base: 5 a'' @ nl @ tab @ ''Target: 12 b c'' @ nl
            @ tab @ ''Current: 12 b c'' @ nl @ tab @ ''Status:Syncing'' @ nl
            @ tab @ ''Err: <nil>'' @ nl @ nl)
   \<and> State exampleActive = StageValidating \<and> State exampleComplete = StageComplete"
  by (simp add: chainStatusCmd_def printTarget_def Println_def showErr_def exampleActive_def
      exampleComplete_def Itoa_def decimal.simps digit_def)

section \<open>The set-head command\<close>

text \<open>
  C3. The set-head command fails with the parsing error, leaving the node as it is, when
  the arguments do not parse; otherwise it returns exactly what \<^verbatim>\<open>ChainSetHead\<close> returns on
  the key built from the parsed CIDs, whose members are exactly those CIDs. So it fails
  just when a CID fails to parse or \<^verbatim>\<open>ChainSetHead\<close> fails; no weight is looked at.
\<close>

theorem chainSetHeadCmd_passes_key:
  "(\<forall>err. cidsFromSlice arguments = Inl err \<longrightarrow>
       chainSetHeadCmd cidsFromSlice ChainSetHead arguments node = (Some err, node))
   \<and> (\<forall>cids. cidsFromSlice arguments = Inr cids \<longrightarrow>
       chainSetHeadCmd cidsFromSlice ChainSetHead arguments node
         = ChainSetHead (NewTipSetKey cids) node
       \<and> set (NewTipSetKey cids) = set cids)
   \<and> (fst (chainSetHeadCmd cidsFromSlice ChainSetHead arguments node) \<noteq> None \<longleftrightarrow>
        (\<exists>err. cidsFromSlice arguments = Inl err)
        \<or> (\<exists>cids. cidsFromSlice arguments = Inr cids
              \<and> fst (ChainSetHead (NewTipSetKey cids) node) \<noteq> None))"
  by (cases "cidsFromSlice arguments") (simp_all add: chainSetHeadCmd_def NewTipSetKey_def)

theorem chainSetHeadCmd_passes_key_witness:
  "chainSetHeadCmd exampleCidsFromSlice exampleChainSetHead [''c2'', ''c1'', ''c2'']
      ([[''c0''], [''c1'', ''c2'']], [''c0''])
     = (None, ([[''c0''], [''c1'', ''c2'']], [''c1'', ''c2'']))
   \<and> chainSetHeadCmd exampleCidsFromSlice exampleChainSetHead [''c2'', '''']
      ([[''c0''], [''c1'', ''c2'']], [''c0''])
     = (Some ''invalid cid: cid too short'', ([[''c0''], [''c1'', ''c2'']], [''c0'']))"
proof -
  have sorted: "NewTipSetKey [''c2'', ''c1'', ''c2''] = [''c1'', ''c2'']"
    by (simp add: NewTipSetKey_def less_eq_char_def less_char_def)
  show ?thesis
    using chainSetHeadCmd_passes_key
      [of exampleCidsFromSlice "[''c2'', ''c1'', ''c2'']" exampleChainSetHead
          "([[''c0''], [''c1'', ''c2'']], [''c0''])"]
      chainSetHeadCmd_passes_key
      [of exampleCidsFromSlice "[''c2'', '''']" exampleChainSetHead
          "([[''c0''], [''c1'', ''c2'']], [''c0''])"]
      sorted
    by (simp add: exampleCidsFromSlice_def exampleChainSetHead_def)
qed

section \<open>Fork choice\<close>

lemma selects_total: "a \<noteq> b \<Longrightarrow> selects a b \<or> selects b a"
  by (cases a; cases b) (auto simp: selects_def)

lemma selects_asym: "selects a b \<Longrightarrow> \<not> selects b a"
  by (auto simp: selects_def)

lemma selects_trans: "selects a b \<Longrightarrow> selects b c \<Longrightarrow> selects a c"
  by (auto simp: selects_def)

lemma resolve_commute: "resolve (resolve h a) b = resolve (resolve h b) a"
proof (cases "a = b")
  case True
  then show ?thesis by simp
next
  case False
  then consider "selects a b" | "selects b a"
    using selects_total by blast
  then show ?thesis
  proof cases
    case 1
    then show ?thesis
      using selects_asym [of a b] selects_trans [of a b h] selects_trans [of b h a]
      by (auto simp: resolve_def)
  next
    case 2
    then show ?thesis
      using selects_asym [of b a] selects_trans [of b a h] selects_trans [of a h b]
      by (auto simp: resolve_def)
  qed
qed

text \<open>
  C4 as stated fails: a candidate whose weight only equals the current head's, and whose
  serialization is the smaller one, becomes the head.
\<close>

theorem resolve_tie_counterexample:
  "resolve \<lparr>tipKey = [''b''], weight = 50\<rparr> \<lparr>tipKey = [''a''], weight = 50\<rparr>
     = \<lparr>tipKey = [''a''], weight = 50\<rparr>
   \<and> \<not> weight \<lparr>tipKey = [''b''], weight = 50\<rparr> < weight \<lparr>tipKey = [''a''], weight = 50\<rparr>"
  by (simp add: resolve_def selects_def less_char_def)

text \<open>
  C4, as amended. The candidate becomes the new head exactly when its weight strictly
  exceeds the current head's, or equals it while its canonical serialization is the
  lexicographically smaller; a candidate of lower weight never advances the head; the head
  after two candidates does not depend on the order in which they arrive; and a chain
  heavier than both the current head and the other candidate is the head after both, in
  either order.
\<close>

theorem resolve_fork_choice:
  "(resolve current candidate = candidate \<and> candidate \<noteq> current \<longleftrightarrow>
      weight current < weight candidate
      \<or> (weight candidate = weight current \<and> tipKey candidate < tipKey current))
   \<and> (weight candidate < weight current \<longrightarrow> resolve current candidate = current)
   \<and> resolve (resolve current a) b = resolve (resolve current b) a
   \<and> (weight b < weight a \<and> weight current < weight a \<longrightarrow>
        resolve (resolve current a) b = a \<and> resolve (resolve current b) a = a)"
proof (intro conjI)
  show "resolve current candidate = candidate \<and> candidate \<noteq> current \<longleftrightarrow>
      weight current < weight candidate
      \<or> (weight candidate = weight current \<and> tipKey candidate < tipKey current)"
    by (auto simp: resolve_def selects_def)
  show "weight candidate < weight current \<longrightarrow> resolve current candidate = current"
    by (auto simp: resolve_def selects_def)
  show "resolve (resolve current a) b = resolve (resolve current b) a"
    by (rule resolve_commute)
  show "weight b < weight a \<and> weight current < weight a \<longrightarrow>
        resolve (resolve current a) b = a \<and> resolve (resolve current b) a = a"
    by (auto simp: resolve_def selects_def)
qed

theorem resolve_fork_choice_witness:
  "resolve (resolve \<lparr>tipKey = [''g''], weight = 0\<rparr> \<lparr>tipKey = [''x''], weight = 50\<rparr>)
       \<lparr>tipKey = [''y''], weight = 40\<rparr> = \<lparr>tipKey = [''x''], weight = 50\<rparr>
   \<and> resolve (resolve \<lparr>tipKey = [''g''], weight = 0\<rparr> \<lparr>tipKey = [''y''], weight = 40\<rparr>)
       \<lparr>tipKey = [''x''], weight = 50\<rparr> = \<lparr>tipKey = [''x''], weight = 50\<rparr>"
proof -
  let ?g = "\<lparr>tipKey = [''g''], weight = 0\<rparr>"
  let ?x = "\<lparr>tipKey = [''x''], weight = 50\<rparr>"
  let ?y = "\<lparr>tipKey = [''y''], weight = 40\<rparr>"
  have heavier: "weight ?y < weight ?x \<and> weight ?g < weight ?x"
    by simp
  have "weight ?y < weight ?x \<and> weight ?g < weight ?x \<longrightarrow>
          resolve (resolve ?g ?x) ?y = ?x \<and> resolve (resolve ?g ?y) ?x = ?x"
    using resolve_fork_choice [of ?g ?x ?x ?y] by blast
  with heavier show ?thesis
    by blast
qed

section \<open>The miner state API\<close>

text \<open>
  C7. \<^verbatim>\<open>StateVMCirculatingSupplyInternal\<close> returns the zero-valued supply with the error of
  the first of its three steps that fails: getting the tip-set, getting its state root,
  loading the state tree from that root. When all three succeed it returns what
  \<^verbatim>\<open>GetCirculatingSupplyDetailed\<close> returns at the tip-set's height on that tree; when one
  fails the result does not depend on that computation at all.
\<close>

theorem StateVMCirculatingSupplyInternal_steps:
  "(\<forall>err. GetTipSet c tsk = Inl err \<longrightarrow>
       StateVMCirculatingSupplyInternal c tsk = (CirculatingSupply_zero, Some err))
   \<and> (\<forall>ts err. GetTipSet c tsk = Inr ts \<and> GetTipSetStateRoot c tsk = Inl err \<longrightarrow>
       StateVMCirculatingSupplyInternal c tsk = (CirculatingSupply_zero, Some err))
   \<and> (\<forall>ts root err. GetTipSet c tsk = Inr ts \<and> GetTipSetStateRoot c tsk = Inr root
          \<and> LoadState c root = Inl err \<longrightarrow>
       StateVMCirculatingSupplyInternal c tsk = (CirculatingSupply_zero, Some err))
   \<and> (\<forall>ts root sTree. GetTipSet c tsk = Inr ts \<and> GetTipSetStateRoot c tsk = Inr root
          \<and> LoadState c root = Inr sTree \<longrightarrow>
       StateVMCirculatingSupplyInternal c tsk
         = GetCirculatingSupplyDetailed c (EnsureHeight ts) sTree)
   \<and> (\<forall>g. (\<forall>ts root sTree. \<not> (GetTipSet c tsk = Inr ts \<and> GetTipSetStateRoot c tsk = Inr root
          \<and> LoadState c root = Inr sTree)) \<longrightarrow>
       StateVMCirculatingSupplyInternal (c\<lparr>GetCirculatingSupplyDetailed := g\<rparr>) tsk
         = StateVMCirculatingSupplyInternal c tsk)"
  by (auto simp: StateVMCirculatingSupplyInternal_def split: sum.splits)

theorem StateVMCirculatingSupplyInternal_steps_witness:
  "StateVMCirculatingSupplyInternal exampleChain [''c1'']
     = (\<lparr>FilVested = Big 10, FilMined = Big 20, FilBurnt = Big 3, FilLocked = Big 7,
         FilCirculating = Big 20\<rparr>, None)
   \<and> StateVMCirculatingSupplyInternal exampleChain [''c9'']
     = (CirculatingSupply_zero, Some ''NotFound'')
   \<and> StateVMCirculatingSupplyInternal
        (exampleChain\<lparr>LoadState := (\<lambda>root. Inl ''state not found'')\<rparr>) [''c1'']
     = (CirculatingSupply_zero, Some ''state not found'')"
  using StateVMCirculatingSupplyInternal_steps [of exampleChain "[''c1'']"]
    StateVMCirculatingSupplyInternal_steps [of exampleChain "[''c9'']"]
    StateVMCirculatingSupplyInternal_steps
      [of "exampleChain\<lparr>LoadState := (\<lambda>root. Inl ''state not found'')\<rparr>" "[''c1'']"]
  by (simp add: exampleChain_def)

text \<open>Euclidean division by the constant 100 is \<open>div\<close>.\<close>

lemma buffer_value:
  "big_Div (big_Mul d initialPledgeNum) initialPledgeDen = d * 110 div 100"
  by (simp add: big_Div_def big_Mul_def initialPledgeNum_def initialPledgeDen_def)

lemma buffer_rounding:
  "\<exists>r. d * 110 = (d * 110 div 100) * 100 + r \<and> 0 \<le> r \<and> r < (100 :: int)"
proof -
  define x where "x = d * 110"
  have "x = (x div 100) * 100 + x mod 100" "0 \<le> x mod 100" "x mod 100 < 100"
    by simp_all
  then have "\<exists>r. x = (x div 100) * 100 + r \<and> 0 \<le> r \<and> r < 100"
    by blast
  then show ?thesis
    unfolding x_def .
qed

lemma StateMinerPreCommitDepositForPower_success:
  assumes "StateMinerPreCommitDepositForPower c maddr pci tsk = (v, None)"
  shows "\<exists>ts sTree ssize mact ms w vw pact ps powerSmoothed rewardActor rewardState deposit.
           GetTipSet c tsk = Inr ts
           \<and> LoadState c (ParentStateRoot ts) = Inr sTree
           \<and> SectorSize c (SealProof pci) = Inr ssize
           \<and> GetActor c sTree (marketAddress c) = Inr (Some mact)
           \<and> marketLoad c mact = Inr ms
           \<and> VerifyDealsForActivation c ms maddr (DealIDs pci) (EnsureHeight ts) (Expiration pci)
               = Inr (w, vw)
           \<and> GetActor c sTree (powerAddress c) = Inr (Some pact)
           \<and> powerLoad c pact = Inr ps
           \<and> TotalPowerSmoothed c ps = Inr powerSmoothed
           \<and> GetActor c sTree (rewardAddress c) = Inr (Some rewardActor)
           \<and> rewardLoad c rewardActor = Inr rewardState
           \<and> PreCommitDepositForPower c rewardState powerSmoothed
                (QAPowerForWeight c ssize (Expiration pci - EnsureHeight ts) w vw) = Inr deposit
           \<and> v = Big (big_Div (big_Mul deposit initialPledgeNum) initialPledgeDen)"
  using assms
  by (auto simp: StateMinerPreCommitDepositForPower_def Let_def
      split: sum.splits option.splits prod.splits)

text \<open>
  C10. Whenever \<^verbatim>\<open>StateMinerPreCommitDepositForPower\<close> returns without an error, every step
  before succeeded, and the value returned is the deposit computed by the reward state
  times \<open>initialPledgeNum = 110\<close>, divided by \<open>initialPledgeDen = 100\<close> with the remainder
  (between 0 and 99) dropped.
\<close>

theorem StateMinerPreCommitDepositForPower_buffer:
  assumes "StateMinerPreCommitDepositForPower c maddr pci tsk = (v, None)"
  shows "\<exists>ts sTree ssize mact ms w vw pact ps powerSmoothed rewardActor rewardState deposit.
           GetTipSet c tsk = Inr ts
           \<and> LoadState c (ParentStateRoot ts) = Inr sTree
           \<and> SectorSize c (SealProof pci) = Inr ssize
           \<and> GetActor c sTree (marketAddress c) = Inr (Some mact)
           \<and> marketLoad c mact = Inr ms
           \<and> VerifyDealsForActivation c ms maddr (DealIDs pci) (EnsureHeight ts) (Expiration pci)
               = Inr (w, vw)
           \<and> GetActor c sTree (powerAddress c) = Inr (Some pact)
           \<and> powerLoad c pact = Inr ps
           \<and> TotalPowerSmoothed c ps = Inr powerSmoothed
           \<and> GetActor c sTree (rewardAddress c) = Inr (Some rewardActor)
           \<and> rewardLoad c rewardActor = Inr rewardState
           \<and> PreCommitDepositForPower c rewardState powerSmoothed
                (QAPowerForWeight c ssize (Expiration pci - EnsureHeight ts) w vw) = Inr deposit
           \<and> v = Big (big_Div (big_Mul deposit initialPledgeNum) initialPledgeDen)
           \<and> initialPledgeNum = 110 \<and> initialPledgeDen = 100
           \<and> v = Big (deposit * 110 div 100)
           \<and> (\<exists>r. deposit * 110 = (deposit * 110 div 100) * 100 + r \<and> 0 \<le> r \<and> r < 100)"
proof -
  from StateMinerPreCommitDepositForPower_success [OF assms]
  obtain ts sTree ssize mact ms w vw pact ps powerSmoothed rewardActor rewardState deposit
    where steps: "GetTipSet c tsk = Inr ts"
      "LoadState c (ParentStateRoot ts) = Inr sTree"
      "SectorSize c (SealProof pci) = Inr ssize"
      "GetActor c sTree (marketAddress c) = Inr (Some mact)"
      "marketLoad c mact = Inr ms"
      "VerifyDealsForActivation c ms maddr (DealIDs pci) (EnsureHeight ts) (Expiration pci)
         = Inr (w, vw)"
      "GetActor c sTree (powerAddress c) = Inr (Some pact)"
      "powerLoad c pact = Inr ps"
      "TotalPowerSmoothed c ps = Inr powerSmoothed"
      "GetActor c sTree (rewardAddress c) = Inr (Some rewardActor)"
      "rewardLoad c rewardActor = Inr rewardState"
      "PreCommitDepositForPower c rewardState powerSmoothed
         (QAPowerForWeight c ssize (Expiration pci - EnsureHeight ts) w vw) = Inr deposit"
      and v: "v = Big (big_Div (big_Mul deposit initialPledgeNum) initialPledgeDen)"
    by blast
  have result: "v = Big (deposit * 110 div 100)"
    using v by (simp only: buffer_value)
  have pledge: "initialPledgeNum = 110 \<and> initialPledgeDen = 100"
    by (simp add: initialPledgeNum_def initialPledgeDen_def)
  from steps v pledge result buffer_rounding [of deposit] show ?thesis
    by blast
qed

theorem StateMinerPreCommitDepositForPower_buffer_witness:
  "StateMinerPreCommitDepositForPower exampleChain ''f01000''
     \<lparr>SealProof = 3, DealIDs = [], Expiration = 5000\<rparr> [''c1''] = (Big 1105, None)"
proof -
  let ?pci = "\<lparr>SealProof = 3, DealIDs = [], Expiration = 5000\<rparr>"
  have run: "StateMinerPreCommitDepositForPower exampleChain ''f01000'' ?pci [''c1'']
               = (Big 1105, None)"
    by (simp add: StateMinerPreCommitDepositForPower_def exampleChain_def big_Div_def
        big_Mul_def initialPledgeNum_def initialPledgeDen_def)
  show ?thesis
    using StateMinerPreCommitDepositForPower_buffer [OF run] run by simp
qed

section \<open>The wallet backend\<close>

text \<open>
  C8. For every protocol other than BLS and SECP256K1, \<^verbatim>\<open>NewAddress\<close> returns the undefined
  address with the error \<^verbatim>\<open>Unknown address protocol\<close> and the protocol's number, and leaves
  the backend (datastore and caches) as it was, whatever the key generators and the
  datastore would do; for BLS and SECP256K1 it is the matching key generation and storage.
\<close>

theorem NewAddress_unknown_protocol:
  "(protocol \<noteq> BLS \<and> protocol \<noteq> SECP256K1 \<longrightarrow>
      NewAddress env protocol password backend
        = ((Undef, Some (''Unknown address protocol '' @ Itoa (uint protocol))), backend)
      \<and> (\<forall>env'. NewAddress env' protocol password backend
                   = NewAddress env protocol password backend))
   \<and> NewAddress env BLS password backend = newBLSAddress env password backend
   \<and> NewAddress env SECP256K1 password backend = newSecpAddress env password backend"
  by (simp add: NewAddress_def BLS_def SECP256K1_def)

theorem NewAddress_unknown_protocol_witness:
  "NewAddress exampleWallet 2 ''pw'' exampleBackend
     = ((Undef, Some ''Unknown address protocol 2''), exampleBackend)
   \<and> NewAddress exampleWallet 255 ''pw'' exampleBackend
     = ((Undef, Some ''Unknown address protocol 255''), exampleBackend)"
proof -
  have two: "(2 :: Protocol) \<noteq> BLS \<and> (2 :: Protocol) \<noteq> SECP256K1"
    by (simp add: BLS_def SECP256K1_def)
  have last: "(255 :: Protocol) \<noteq> BLS \<and> (255 :: Protocol) \<noteq> SECP256K1"
    by (simp add: BLS_def SECP256K1_def)
  have shown: "Itoa (uint (2 :: Protocol)) = ''2''" "Itoa (uint (255 :: Protocol)) = ''255''"
    by (simp_all add: Itoa_def decimal.simps digit_def)
  show ?thesis
    using NewAddress_unknown_protocol [of 2 exampleWallet "''pw''" exampleBackend]
      NewAddress_unknown_protocol [of 255 exampleWallet "''pw''" exampleBackend]
      two last shown
    by simp
qed

end
